theory Spec2Isabelle
  imports Main "HOL-Library.Word"
begin

section \<open>The instructor dashboard of the case discussion board\<close>

text \<open>
  A shallow embedding of \<^verbatim>\<open>src/app/page.tsx\<close>: the React component \<^verbatim>\<open>HomePage\<close>, its
  two effects and its five handlers (\<^verbatim>\<open>loadCases\<close>, \<^verbatim>\<open>handleEmailSubmit\<close>,
  \<^verbatim>\<open>handleSwitch\<close>, \<^verbatim>\<open>handleCreate\<close>, \<^verbatim>\<open>handleDelete\<close>).

  \<^item> A JavaScript string is a sequence of UTF-16 code units: a list of 16-bit words.
  \<^item> The component's \<^verbatim>\<open>useState\<close> cells and the browser's \<^verbatim>\<open>localStorage\<close> form one
    record, passed through every handler and returned updated.
  \<^item> The remote store is outside the file. A handler records every request it issues, in
    order, and the answer to each \<^verbatim>\<open>await\<close> is read from a parameter \<open>remote\<close>, a function
    of the requests issued so far: the promise either resolves with a \<^verbatim>\<open>data\<close> field
    (\<^verbatim>\<open>null\<close> or an array of rows) or rejects, and a rejected \<^verbatim>\<open>await\<close> throws out of the
    handler at that point.
  \<^item> \<^verbatim>\<open>window.confirm\<close> is a parameter \<open>confirm\<close> from the message shown to the answer.
  \<^item> The form event of the submit handlers, and its \<^verbatim>\<open>preventDefault()\<close>, touch neither the
    page nor the remote store and are left out.
  \<^item> \<^verbatim>\<open>String.prototype.toLowerCase\<close> is a parameter \<open>toLowerCase\<close>: its Unicode case
    tables are not part of the repository. \<open>asciiLowerCase\<close> is its restriction to ASCII,
    used to run the handlers on concrete inputs.
\<close>

subsection \<open>Strings\<close>

type_synonym jschar = "16 word"
type_synonym jsstring = "jschar list"

definition ascii :: "string \<Rightarrow> jsstring" where
  \<comment> \<open>a string literal of the source, as code units\<close>
  "ascii s = map of_char s"

definition isWhiteSpace :: "jschar \<Rightarrow> bool" where
  \<comment> \<open>ECMAScript WhiteSpace and LineTerminator: what \<^verbatim>\<open>trim()\<close> strips and \<^verbatim>\<open>\s\<close> matches\<close>
  "isWhiteSpace c \<longleftrightarrow>
     c = 0x0009 \<or> c = 0x000A \<or> c = 0x000B \<or> c = 0x000C \<or> c = 0x000D \<or> c = 0x0020 \<or>
     c = 0x00A0 \<or> c = 0x1680 \<or> (0x2000 \<le> c \<and> c \<le> 0x200A) \<or> c = 0x2028 \<or>
     c = 0x2029 \<or> c = 0x202F \<or> c = 0x205F \<or> c = 0x3000 \<or> c = 0xFEFF"

definition trim :: "jsstring \<Rightarrow> jsstring" where
  \<comment> \<open>\<^verbatim>\<open>s.trim()\<close>\<close>
  "trim s = rev (dropWhile isWhiteSpace (rev (dropWhile isWhiteSpace s)))"

function replaceWhiteSpaceRuns :: "jsstring \<Rightarrow> jsstring" where
  \<comment> \<open>\<^verbatim>\<open>s.replace(/\s+/g, "-")\<close>: every maximal run of white space becomes one hyphen\<close>
  "replaceWhiteSpaceRuns [] = []"
| "replaceWhiteSpaceRuns (c # cs) =
     (if isWhiteSpace c then 0x002D # replaceWhiteSpaceRuns (dropWhile isWhiteSpace cs)
      else c # replaceWhiteSpaceRuns cs)"
  by pat_completeness auto
termination
  by (relation "measure length") (auto simp: length_dropWhile_le le_imp_less_Suc)

definition inSlugClass :: "jschar \<Rightarrow> bool" where
  \<comment> \<open>the character class \<^verbatim>\<open>[a-z0-9-]\<close>\<close>
  "inSlugClass c \<longleftrightarrow>
     (0x0061 \<le> c \<and> c \<le> 0x007A) \<or> (0x0030 \<le> c \<and> c \<le> 0x0039) \<or> c = 0x002D"

definition slug :: "(jsstring \<Rightarrow> jsstring) \<Rightarrow> jsstring \<Rightarrow> jsstring" where
  \<comment> \<open>\<^verbatim>\<open>newId.trim().toLowerCase().replace(/\s+/g, "-").replace(/[^a-z0-9-]/g, "")\<close>\<close>
  "slug toLowerCase newId =
     filter inSlugClass (replaceWhiteSpaceRuns (toLowerCase (trim newId)))"

definition asciiLowerCase :: "jsstring \<Rightarrow> jsstring" where
  \<comment> \<open>\<^verbatim>\<open>toLowerCase\<close> on ASCII text: A to Z become a to z\<close>
  "asciiLowerCase s = map (\<lambda>c. if 0x0041 \<le> c \<and> c \<le> 0x005A then c + 0x0020 else c) s"

subsection \<open>Rows, component state and requests\<close>

record newCase =
  id' :: jsstring
  title :: jsstring
  created_by :: jsstring

record CaseRow = newCase +
  created_at :: jsstring

record page =
  cases :: "CaseRow list"
  newId :: jsstring
  newTitle :: jsstring
  creating :: bool
  loading :: bool
  email :: "jsstring option"
  emailInput :: jsstring
  deleting :: "jsstring option"
  localStorage :: "string \<rightharpoonup> jsstring"

datatype call =
    Select string string string jsstring string bool
    \<comment> \<open>\<^verbatim>\<open>from(table).select(columns).eq(column, value).order(column, {ascending})\<close>\<close>
  | is_Insert: Insert string newCase
    \<comment> \<open>\<^verbatim>\<open>from(table).insert(row)\<close>\<close>
  | Delete string string jsstring
    \<comment> \<open>\<^verbatim>\<open>from(table).delete().eq(column, value)\<close>\<close>

datatype response = Resolved "CaseRow list option" | Rejected

record run =
  after :: page
  calls :: "call list"
  threw :: bool

definition initial :: "(string \<rightharpoonup> jsstring) \<Rightarrow> page" where
  \<comment> \<open>the \<^verbatim>\<open>useState\<close> initial values, over the browser's storage\<close>
  "initial storage =
     \<lparr>cases = [], newId = [], newTitle = [], creating = False, loading = True,
      email = None, emailInput = [], deleting = None, localStorage = storage\<rparr>"

subsection \<open>Effects and handlers\<close>

definition mountEffect :: "page \<Rightarrow> page" where
  \<comment> \<open>the first \<^verbatim>\<open>useEffect\<close>, run once on mount\<close>
  "mountEffect w =
     (case localStorage w ''instructor_email'' of
        None \<Rightarrow> w\<lparr>loading := False\<rparr>
      | Some stored \<Rightarrow> if stored = [] then w\<lparr>loading := False\<rparr> else w\<lparr>email := Some stored\<rparr>)"

definition loadCases :: "(call list \<Rightarrow> response) \<Rightarrow> jsstring \<Rightarrow> page \<Rightarrow> call list \<Rightarrow> run" where
  "loadCases remote forEmail w issued =
     (let w1 = w\<lparr>loading := True\<rparr>;
          issued1 = issued @ [Select ''case_config'' ''id, title, created_at, created_by''
                                ''created_by'' forEmail ''created_at'' False]
      in case remote issued1 of
           Rejected \<Rightarrow> \<lparr>after = w1, calls = issued1, threw = True\<rparr>
         | Resolved data \<Rightarrow>
             \<lparr>after = w1\<lparr>cases := (case data of None \<Rightarrow> [] | Some rows \<Rightarrow> rows),
                          loading := False\<rparr>,
              calls = issued1, threw = False\<rparr>)"

definition emailEffect :: "(call list \<Rightarrow> response) \<Rightarrow> page \<Rightarrow> run" where
  \<comment> \<open>the second \<^verbatim>\<open>useEffect\<close>, run when \<^verbatim>\<open>email\<close> has changed\<close>
  "emailEffect remote w =
     (case email w of
        None \<Rightarrow> \<lparr>after = w, calls = [], threw = False\<rparr>
      | Some e \<Rightarrow> if e = [] then \<lparr>after = w, calls = [], threw = False\<rparr>
                  else (loadCases remote e w [])\<lparr>threw := False\<rparr>)"

definition handleEmailSubmit :: "(jsstring \<Rightarrow> jsstring) \<Rightarrow> page \<Rightarrow> page" where
  "handleEmailSubmit toLowerCase w =
     (let trimmed = toLowerCase (trim (emailInput w))
      in if trimmed = [] then w
         else w\<lparr>localStorage := (localStorage w)(''instructor_email'' \<mapsto> trimmed),
                email := Some trimmed\<rparr>)"

definition handleSwitch :: "page \<Rightarrow> page" where
  "handleSwitch w =
     w\<lparr>localStorage := (localStorage w)(''instructor_email'' := None),
       email := None, emailInput := [], cases := [], loading := False\<rparr>"

definition handleCreate ::
  "(jsstring \<Rightarrow> jsstring) \<Rightarrow> (call list \<Rightarrow> response) \<Rightarrow> page \<Rightarrow> run" where
  "handleCreate toLowerCase remote w =
     (case email w of
        None \<Rightarrow> \<lparr>after = w, calls = [], threw = False\<rparr>
      | Some e \<Rightarrow>
          if e = [] then \<lparr>after = w, calls = [], threw = False\<rparr>
          else
            let s = slug toLowerCase (newId w)
            in if s = [] then \<lparr>after = w, calls = [], threw = False\<rparr>
               else
                 let w1 = w\<lparr>creating := True\<rparr>;
                     issued1 = [Insert ''case_config''
                                  \<lparr>id' = s,
                                   title = (if trim (newTitle w) = [] then ascii ''New Case''
                                            else trim (newTitle w)),
                                   created_by = e\<rparr>]
                 in case remote issued1 of
                      Rejected \<Rightarrow> \<lparr>after = w1, calls = issued1, threw = True\<rparr>
                    | Resolved _ \<Rightarrow>
                        (loadCases remote e
                           (w1\<lparr>newId := [], newTitle := [], creating := False\<rparr>) issued1)
                        \<lparr>threw := False\<rparr>)"

definition confirmMessage :: "jsstring \<Rightarrow> jsstring" where
  \<comment> \<open>the template literal passed to \<^verbatim>\<open>window.confirm\<close>; 0x22 is the double quote\<close>
  "confirmMessage caseTitle =
     ascii ''Delete case '' @ [0x0022] @ caseTitle @ [0x0022] @
     ascii ''? All responses will be permanently deleted.''"

definition handleDelete ::
  "(jsstring \<Rightarrow> bool) \<Rightarrow> (call list \<Rightarrow> response) \<Rightarrow> jsstring \<Rightarrow> jsstring \<Rightarrow> page \<Rightarrow> run" where
  "handleDelete confirm remote caseId caseTitle w =
     (case email w of
        None \<Rightarrow> \<lparr>after = w, calls = [], threw = False\<rparr>
      | Some e \<Rightarrow>
          if e = [] then \<lparr>after = w, calls = [], threw = False\<rparr>
          else if \<not> confirm (confirmMessage caseTitle)
          then \<lparr>after = w, calls = [], threw = False\<rparr>
          else
            let w1 = w\<lparr>deleting := Some caseId\<rparr>;
                issued1 = [Delete ''responses'' ''case_id'' caseId]
            in case remote issued1 of
                 Rejected \<Rightarrow> \<lparr>after = w1, calls = issued1, threw = True\<rparr>
               | Resolved _ \<Rightarrow>
                   let issued2 = issued1 @ [Delete ''case_config'' ''id'' caseId]
                   in case remote issued2 of
                        Rejected \<Rightarrow> \<lparr>after = w1, calls = issued2, threw = True\<rparr>
                      | Resolved _ \<Rightarrow>
                          (loadCases remote e (w1\<lparr>deleting := None\<rparr>) issued2)
                          \<lparr>threw := False\<rparr>)"

subsection \<open>Concrete inputs\<close>

text \<open>
  A dashboard page of the identity \<^verbatim>\<open>alice@school.edu\<close>, the page before any identity
  is known, one of her rows, a remote store
  that resolves every request with the same \<^verbatim>\<open>data\<close>, and users who accept or decline the
  confirmation prompt. The theorems below are run on them.
\<close>

definition alice :: jsstring where
  "alice = ascii ''alice@school.edu''"

definition dashboard :: page where
  "dashboard =
     \<lparr>cases = [], newId = [], newTitle = [], creating = False, loading = False,
      email = Some alice, emailInput = [], deleting = None,
      localStorage = [''instructor_email'' \<mapsto> alice]\<rparr>"

definition emptyStorage :: "string \<rightharpoonup> jsstring" where
  "emptyStorage = Map.empty"

definition captureForm :: page where
  \<comment> \<open>the pre-identity page: mounted over a storage without identity\<close>
  "captureForm = mountEffect (initial emptyStorage)"

definition drafting :: page where
  \<comment> \<open>the dashboard with \<^verbatim>\<open>draft\<close> typed into the identifier field\<close>
  "drafting = dashboard\<lparr>newId := ascii ''draft''\<rparr>"

definition skims :: CaseRow where
  "skims = \<lparr>id' = ascii ''skims'', title = ascii ''SKIMS'', created_by = alice,
            created_at = ascii ''2025-01-01T00:00:00Z''\<rparr>"

definition answering :: "CaseRow list option \<Rightarrow> call list \<Rightarrow> response" where
  "answering data issued = Resolved data"

definition accepts :: "jsstring \<Rightarrow> bool" where
  "accepts message = True"

definition declines :: "jsstring \<Rightarrow> bool" where
  "declines message = False"

section \<open>Properties of slug derivation\<close>

lemma inSlugClass_unat:
  "inSlugClass c \<longleftrightarrow>
     (97 \<le> unat c \<and> unat c \<le> 122) \<or> (48 \<le> unat c \<and> unat c \<le> 57) \<or> unat c = 45"
  by (simp add: inSlugClass_def word_le_nat_alt word_unat_eq_iff)

lemma inSlugClass_alphabet:
  assumes "inSlugClass c"
  shows "c \<in> set (ascii ''abcdefghijklmnopqrstuvwxyz0123456789-'')"
proof -
  let ?S = "set (ascii ''abcdefghijklmnopqrstuvwxyz0123456789-'')"
  have "(97 \<le> unat c \<and> unat c \<le> 122) \<or> (48 \<le> unat c \<and> unat c \<le> 57) \<or> unat c = 45"
    using assms by (simp only: inSlugClass_unat)
  then have "unat c \<in> {97..<123} \<or> unat c \<in> {48..<58} \<or> unat c = 45"
    by (simp only: atLeastLessThan_iff) linarith
  then have "unat c \<in> set [97..<123] \<or> unat c \<in> set [48..<58] \<or> unat c = 45"
    by (simp only: set_upt)
  then have "unat c \<in> unat ` ?S"
    by (simp add: ascii_def)
  then obtain x where "x \<in> ?S" and "unat c = unat x"
    by (auto simp del: set_map)
  then show ?thesis
    by (simp only: word_unat_eq_iff [symmetric])
qed

lemma slug_skims: "slug asciiLowerCase (ascii ''  SKIMS Case!! '') = ascii ''skims-case''"
  by (simp add: slug_def asciiLowerCase_def ascii_def trim_def isWhiteSpace_def
      inSlugClass_def)

lemma slug_symbols: "slug asciiLowerCase (ascii ''!!!'') = []"
  by (simp add: slug_def asciiLowerCase_def ascii_def trim_def isWhiteSpace_def
      inSlugClass_def)

lemma asciiLowerCase_Nil_iff: "asciiLowerCase s = [] \<longleftrightarrow> s = []"
  by (simp add: asciiLowerCase_def)

lemma alice_not_Nil: "alice \<noteq> []"
  by (simp add: alice_def ascii_def)

lemma captureForm_eq:
  "captureForm =
     \<lparr>cases = [], newId = [], newTitle = [], creating = False, loading = False,
      email = None, emailInput = [], deleting = None, localStorage = emptyStorage\<rparr>"
  by (simp add: captureForm_def mountEffect_def initial_def emptyStorage_def)

text \<open>
  C1. Whatever the raw identifier typed into the creation form (and whatever
  \<^verbatim>\<open>toLowerCase\<close> does to it), every code unit of the slug derived by \<^verbatim>\<open>handleCreate\<close>
  is a lowercase letter a to z, a digit 0 to 9, or a hyphen.
\<close>

theorem slug_alphabet:
  "set (slug toLowerCase raw) \<subseteq> set (ascii ''abcdefghijklmnopqrstuvwxyz0123456789-'')"
  by (auto simp: slug_def dest: inSlugClass_alphabet simp del: set_map)

theorem slug_alphabet_witness:
  "slug asciiLowerCase (ascii ''  SKIMS Case!! '') = ascii ''skims-case'' \<and>
   set (ascii ''skims-case'') \<subseteq> set (ascii ''abcdefghijklmnopqrstuvwxyz0123456789-'')"
  using slug_alphabet [of asciiLowerCase "ascii ''  SKIMS Case!! ''"]
  by (simp only: slug_skims)

section \<open>Creating a case\<close>

text \<open>
  C2. When the slug derived from the identifier field is empty, as it is for \<^verbatim>\<open>"!!!"\<close>,
  \<^verbatim>\<open>handleCreate\<close> returns before it touches anything: it issues no request (so no insert),
  it does not throw, and the page is as it was.
\<close>

theorem create_empty_slug_noop:
  "slug toLowerCase (newId w) = [] \<Longrightarrow>
   handleCreate toLowerCase remote w = \<lparr>after = w, calls = [], threw = False\<rparr>"
  by (simp add: handleCreate_def split: option.splits)

theorem create_empty_slug_noop_witness:
  "slug asciiLowerCase (newId (dashboard\<lparr>newId := ascii ''!!!''\<rparr>)) = [] \<and>
   handleCreate asciiLowerCase (answering None) (dashboard\<lparr>newId := ascii ''!!!''\<rparr>) =
     \<lparr>after = dashboard\<lparr>newId := ascii ''!!!''\<rparr>, calls = [], threw = False\<rparr>"
proof -
  have h: "slug asciiLowerCase (newId (dashboard\<lparr>newId := ascii ''!!!''\<rparr>)) = []"
    by (simp add: slug_symbols)
  from create_empty_slug_noop [OF h] h show ?thesis by simp
qed

text \<open>
  C7. With an identity present and a non-empty derived slug, \<^verbatim>\<open>handleCreate\<close> issues exactly
  one insert, into \<^verbatim>\<open>case_config\<close>: its \<^verbatim>\<open>id\<close> is the derived slug, its \<^verbatim>\<open>title\<close> is the
  trimmed title field, or \<^verbatim>\<open>"New Case"\<close> when that is empty, and its \<^verbatim>\<open>created_by\<close> is the
  current identity. This holds whatever the remote store answers.
\<close>

theorem create_inserts_one_row:
  assumes "email w = Some e" and "e \<noteq> []" and "slug toLowerCase (newId w) \<noteq> []"
  shows "filter is_Insert (calls (handleCreate toLowerCase remote w)) =
           [Insert ''case_config''
              \<lparr>id' = slug toLowerCase (newId w),
               title = (if trim (newTitle w) = [] then ascii ''New Case''
                        else trim (newTitle w)),
               created_by = e\<rparr>]"
  using assms
  by (simp add: handleCreate_def loadCases_def Let_def split: response.splits)

theorem create_inserts_one_row_witness:
  "email (dashboard\<lparr>newId := ascii ''  SKIMS Case!! '', newTitle := ascii ''   ''\<rparr>) =
     Some alice \<and>
   alice \<noteq> [] \<and>
   slug asciiLowerCase (ascii ''  SKIMS Case!! '') = ascii ''skims-case'' \<and>
   filter is_Insert (calls (handleCreate asciiLowerCase (answering None)
       (dashboard\<lparr>newId := ascii ''  SKIMS Case!! '', newTitle := ascii ''   ''\<rparr>))) =
     [Insert ''case_config''
        \<lparr>id' = ascii ''skims-case'', title = ascii ''New Case'', created_by = alice\<rparr>]"
proof -
  let ?w = "dashboard\<lparr>newId := ascii ''  SKIMS Case!! '', newTitle := ascii ''   ''\<rparr>"
  have h1: "email ?w = Some alice"
    by (simp add: dashboard_def)
  have h3: "slug asciiLowerCase (newId ?w) \<noteq> []"
    by (simp add: slug_skims) (simp add: ascii_def)
  have t: "trim (newTitle ?w) = []"
    by (simp add: trim_def ascii_def isWhiteSpace_def)
  from create_inserts_one_row [OF h1 alice_not_Nil h3, of "answering None"]
    h1 alice_not_Nil slug_skims t
  show ?thesis by simp
qed

section \<open>Deleting a case\<close>

text \<open>
  C3. In a confirmed deletion (an identity is present and the user accepts the prompt),
  for every case id, the first request \<^verbatim>\<open>handleDelete\<close> issues is the delete of the
  \<^verbatim>\<open>responses\<close> rows whose \<^verbatim>\<open>case_id\<close> is that id; once that request has resolved, the
  second is the delete of the \<^verbatim>\<open>case_config\<close> row with that \<^verbatim>\<open>id\<close>; and wherever the parent
  delete stands among the requests, the dependent delete stands before it.
\<close>

theorem delete_dependents_first:
  assumes "email w = Some e" and "e \<noteq> []" and "confirm (confirmMessage caseTitle)"
  shows "let cs = calls (handleDelete confirm remote caseId caseTitle w);
             dependents = Delete ''responses'' ''case_id'' caseId;
             parent = Delete ''case_config'' ''id'' caseId
         in take 1 cs = [dependents] \<and>
            (remote [dependents] \<noteq> Rejected \<longrightarrow> take 2 cs = [dependents, parent]) \<and>
            (\<forall>i < length cs. cs ! i = parent \<longrightarrow> (\<exists>j < i. cs ! j = dependents))"
  using assms
  by (auto simp: handleDelete_def loadCases_def Let_def nth_Cons less_Suc_eq_0_disj
      split: response.splits nat.splits)

theorem delete_dependents_first_witness:
  "email dashboard = Some alice \<and> alice \<noteq> [] \<and> accepts (confirmMessage (ascii ''SKIMS'')) \<and>
   calls (handleDelete accepts (answering None) (ascii ''skims'') (ascii ''SKIMS'')
            dashboard) =
     [Delete ''responses'' ''case_id'' (ascii ''skims''),
      Delete ''case_config'' ''id'' (ascii ''skims''),
      Select ''case_config'' ''id, title, created_at, created_by''
        ''created_by'' alice ''created_at'' False] \<and>
   take 2 (calls (handleDelete accepts (answering None) (ascii ''skims'') (ascii ''SKIMS'')
                    dashboard)) =
     [Delete ''responses'' ''case_id'' (ascii ''skims''),
      Delete ''case_config'' ''id'' (ascii ''skims'')]"
proof -
  have h1: "email dashboard = Some alice"
    by (simp add: dashboard_def)
  have h3: "accepts (confirmMessage (ascii ''SKIMS''))"
    by (simp add: accepts_def)
  have c: "calls (handleDelete accepts (answering None) (ascii ''skims'') (ascii ''SKIMS'')
                    dashboard) =
     [Delete ''responses'' ''case_id'' (ascii ''skims''),
      Delete ''case_config'' ''id'' (ascii ''skims''),
      Select ''case_config'' ''id, title, created_at, created_by''
        ''created_by'' alice ''created_at'' False]"
    using h1 alice_not_Nil h3
    by (simp add: handleDelete_def loadCases_def answering_def Let_def)
  from delete_dependents_first [of dashboard alice accepts "ascii ''SKIMS''" "answering None"
      "ascii ''skims''"] h1 alice_not_Nil h3 c
  show ?thesis by (simp add: Let_def answering_def)
qed

text \<open>
  C4. For every case id and title, when the user declines the confirmation prompt,
  \<^verbatim>\<open>handleDelete\<close> issues no request, does not throw, and returns the page as it was: the
  case list, the deleting marker, the loading flag and every other cell keep their values.
\<close>

theorem delete_declined_noop:
  "\<not> confirm (confirmMessage caseTitle) \<Longrightarrow>
   handleDelete confirm remote caseId caseTitle w = \<lparr>after = w, calls = [], threw = False\<rparr>"
  by (simp add: handleDelete_def split: option.splits)

theorem delete_declined_noop_witness:
  "\<not> declines (confirmMessage (ascii ''SKIMS'')) \<and>
   handleDelete declines (answering None) (ascii ''skims'') (ascii ''SKIMS'')
     (dashboard\<lparr>cases := [skims]\<rparr>) =
     \<lparr>after = dashboard\<lparr>cases := [skims]\<rparr>, calls = [], threw = False\<rparr>"
proof -
  have h: "\<not> declines (confirmMessage (ascii ''SKIMS''))"
    by (simp add: declines_def)
  from delete_declined_noop [of declines "ascii ''SKIMS''" "answering None" "ascii ''skims''"
      "dashboard\<lparr>cases := [skims]\<rparr>"] h
  show ?thesis by simp
qed

text \<open>
  C9. While the current identity is \<^verbatim>\<open>null\<close>, \<^verbatim>\<open>handleCreate\<close> and \<^verbatim>\<open>handleDelete\<close>, on
  all inputs, issue no request, do not throw, and return the page (component state and
  \<^verbatim>\<open>localStorage\<close>) as it was.
\<close>

theorem no_identity_noop:
  "email w = None \<Longrightarrow>
   handleCreate toLowerCase remote w = \<lparr>after = w, calls = [], threw = False\<rparr> \<and>
   handleDelete confirm remote caseId caseTitle w = \<lparr>after = w, calls = [], threw = False\<rparr>"
  by (simp add: handleCreate_def handleDelete_def)

theorem no_identity_noop_witness:
  "email (captureForm\<lparr>newId := ascii ''skims''\<rparr>) = None \<and>
   handleCreate asciiLowerCase (answering None) (captureForm\<lparr>newId := ascii ''skims''\<rparr>) =
     \<lparr>after = captureForm\<lparr>newId := ascii ''skims''\<rparr>, calls = [], threw = False\<rparr> \<and>
   handleDelete accepts (answering None) (ascii ''skims'') (ascii ''SKIMS'')
     (captureForm\<lparr>newId := ascii ''skims''\<rparr>) =
     \<lparr>after = captureForm\<lparr>newId := ascii ''skims''\<rparr>, calls = [], threw = False\<rparr>"
proof -
  have h: "email (captureForm\<lparr>newId := ascii ''skims''\<rparr>) = None"
    by (simp add: captureForm_eq)
  from no_identity_noop [OF h] h show ?thesis by simp
qed

section \<open>Loading the list\<close>

text \<open>
  C8. For every identity, \<^verbatim>\<open>loadCases\<close> issues one request: a select on \<^verbatim>\<open>case_config\<close> of
  the columns \<^verbatim>\<open>id, title, created_at, created_by\<close>, filtered by \<^verbatim>\<open>created_by\<close> equal to
  that identity and ordered by \<^verbatim>\<open>created_at\<close>, not ascending. When the request resolves,
  the case list is replaced by the rows returned, or by the empty list when \<^verbatim>\<open>data\<close> is
  \<^verbatim>\<open>null\<close>, and the loading flag is cleared; nothing else on the page changes.
\<close>

theorem loadCases_query_and_result:
  "calls (loadCases remote forEmail w issued) =
     issued @ [Select ''case_config'' ''id, title, created_at, created_by''
                 ''created_by'' forEmail ''created_at'' False] \<and>
   (\<forall>data. remote (calls (loadCases remote forEmail w issued)) = Resolved data \<longrightarrow>
      after (loadCases remote forEmail w issued) =
        w\<lparr>cases := (case data of None \<Rightarrow> [] | Some rows \<Rightarrow> rows), loading := False\<rparr>)"
  by (simp add: loadCases_def Let_def split: response.splits)

theorem loadCases_query_and_result_witness:
  "calls (loadCases (answering (Some [skims])) alice dashboard []) =
     [Select ''case_config'' ''id, title, created_at, created_by''
        ''created_by'' alice ''created_at'' False] \<and>
   after (loadCases (answering (Some [skims])) alice dashboard []) =
     dashboard\<lparr>cases := [skims], loading := False\<rparr> \<and>
   after (loadCases (answering None) alice (dashboard\<lparr>cases := [skims]\<rparr>) []) =
     dashboard\<lparr>cases := [], loading := False\<rparr>"
  using loadCases_query_and_result [of "answering (Some [skims])" alice dashboard "[]"]
    loadCases_query_and_result [of "answering None" alice "dashboard\<lparr>cases := [skims]\<rparr>" "[]"]
  by (simp add: answering_def)

section \<open>The identity gate\<close>

text \<open>
  C6. Take \<^verbatim>\<open>toLowerCase\<close> to return the empty string on the empty string only, as
  ECMAScript's does. Then for every text in the identity-capture field: when its trim is
  empty (the text is empty or white space only), \<^verbatim>\<open>handleEmailSubmit\<close> leaves the page as
  it was, storage included; otherwise it writes the trimmed, lower-cased text to
  \<^verbatim>\<open>localStorage\<close> under \<^verbatim>\<open>instructor_email\<close> and makes it the current identity.
\<close>

theorem emailSubmit_normalises:
  assumes "\<And>s. toLowerCase s = [] \<longleftrightarrow> s = []"
  shows "(trim (emailInput w) = [] \<longrightarrow> handleEmailSubmit toLowerCase w = w) \<and>
         (trim (emailInput w) \<noteq> [] \<longrightarrow>
            handleEmailSubmit toLowerCase w =
              w\<lparr>localStorage :=
                  (localStorage w)(''instructor_email'' \<mapsto> toLowerCase (trim (emailInput w))),
                email := Some (toLowerCase (trim (emailInput w)))\<rparr>)"
  using assms by (simp add: handleEmailSubmit_def Let_def)

theorem emailSubmit_normalises_witness:
  "handleEmailSubmit asciiLowerCase (captureForm\<lparr>emailInput := ascii ''   ''\<rparr>) =
     captureForm\<lparr>emailInput := ascii ''   ''\<rparr> \<and>
   handleEmailSubmit asciiLowerCase (captureForm\<lparr>emailInput := ascii '' Alice@School.EDU ''\<rparr>) =
     captureForm
       \<lparr>emailInput := ascii '' Alice@School.EDU '',
        localStorage := emptyStorage(''instructor_email'' \<mapsto> alice), email := Some alice\<rparr>"
proof -
  have t1: "trim (ascii ''   '') = []"
    by (simp add: trim_def ascii_def isWhiteSpace_def)
  have t2: "trim (ascii '' Alice@School.EDU '') = ascii ''Alice@School.EDU''"
    by (simp add: trim_def ascii_def isWhiteSpace_def)
  have l: "asciiLowerCase (ascii ''Alice@School.EDU'') = alice"
    by (simp add: asciiLowerCase_def ascii_def alice_def)
  have n: "ascii ''Alice@School.EDU'' \<noteq> []"
    by (simp add: ascii_def)
  from emailSubmit_normalises [of asciiLowerCase, OF asciiLowerCase_Nil_iff,
      of "captureForm\<lparr>emailInput := ascii ''   ''\<rparr>"]
    emailSubmit_normalises [of asciiLowerCase, OF asciiLowerCase_Nil_iff,
      of "captureForm\<lparr>emailInput := ascii '' Alice@School.EDU ''\<rparr>"]
  show ?thesis
    by (simp add: t1 t2 l n captureForm_eq)
qed

text \<open>
  C10. On mount, a non-empty string found in \<^verbatim>\<open>localStorage\<close> under \<^verbatim>\<open>instructor_email\<close>
  becomes the current identity exactly as stored, and nothing else on the page changes:
  no trim, no lower-casing, no validation. The capture form is the path that normalises:
  what \<^verbatim>\<open>handleEmailSubmit\<close> adopts is the trimmed, lower-cased text of the field.
\<close>

theorem mount_adopts_stored_verbatim:
  assumes "localStorage w ''instructor_email'' = Some stored" and "stored \<noteq> []"
  shows "mountEffect w = w\<lparr>email := Some stored\<rparr> \<and>
         (toLowerCase (trim (emailInput w)) \<noteq> [] \<longrightarrow>
            email (handleEmailSubmit toLowerCase w) = Some (toLowerCase (trim (emailInput w))))"
  using assms by (simp add: mountEffect_def handleEmailSubmit_def Let_def)

theorem mount_adopts_stored_verbatim_witness:
  "mountEffect (initial [''instructor_email'' \<mapsto> ascii '' Alice@School.EDU '']) =
     (initial [''instructor_email'' \<mapsto> ascii '' Alice@School.EDU ''])
       \<lparr>email := Some (ascii '' Alice@School.EDU '')\<rparr> \<and>
   ascii '' Alice@School.EDU '' \<noteq> asciiLowerCase (trim (ascii '' Alice@School.EDU ''))"
proof -
  have h1: "localStorage (initial [''instructor_email'' \<mapsto> ascii '' Alice@School.EDU ''])
              ''instructor_email'' = Some (ascii '' Alice@School.EDU '')"
    by (simp add: initial_def)
  have h2: "ascii '' Alice@School.EDU '' \<noteq> []"
    by (simp add: ascii_def)
  have d: "ascii '' Alice@School.EDU '' \<noteq> asciiLowerCase (trim (ascii '' Alice@School.EDU ''))"
    by (simp add: trim_def ascii_def isWhiteSpace_def asciiLowerCase_def)
  from mount_adopts_stored_verbatim [OF h1 h2, of asciiLowerCase] d show ?thesis by simp
qed

text \<open>
  The switch action does not touch the two fields of the creation form. On a dashboard
  where \<^verbatim>\<open>draft\<close> has been typed into the identifier field, \<^verbatim>\<open>handleSwitch\<close> leaves
  \<^verbatim>\<open>newId\<close> at \<^verbatim>\<open>draft\<close>, where the pre-identity page has the empty string: the page
  after the switch is not the pre-identity page.
\<close>

theorem switch_keeps_newId_counterexample:
  "newId (handleSwitch drafting) = ascii ''draft'' \<and>
   newId captureForm = [] \<and>
   handleSwitch drafting \<noteq> captureForm"
proof -
  have a: "newId (handleSwitch drafting) = ascii ''draft''"
    by (simp add: handleSwitch_def drafting_def)
  have b: "newId captureForm = []"
    by (simp add: captureForm_eq)
  have "ascii ''draft'' \<noteq> []"
    by (simp add: ascii_def)
  with a b have "handleSwitch drafting \<noteq> captureForm"
    by metis
  with a b show ?thesis by simp
qed

text \<open>
  C5, as amended. From any starting state, \<^verbatim>\<open>handleSwitch\<close> removes the key
  \<^verbatim>\<open>instructor_email\<close> from \<^verbatim>\<open>localStorage\<close> (and no other key), sets the current identity
  to \<^verbatim>\<open>null\<close>, the case list to empty, the loading flag to false and the identity-capture
  field to the empty string. The fields of the creation form (\<^verbatim>\<open>newId\<close>, \<^verbatim>\<open>newTitle\<close>) and
  the \<^verbatim>\<open>creating\<close> and \<^verbatim>\<open>deleting\<close> markers keep their values; when these four are at
  their initial values, the result is the page as mounted without a stored identity.
\<close>

theorem switch_resets:
  "localStorage (handleSwitch w) = (localStorage w)(''instructor_email'' := None) \<and>
   email (handleSwitch w) = None \<and>
   cases (handleSwitch w) = [] \<and>
   loading (handleSwitch w) = False \<and>
   emailInput (handleSwitch w) = [] \<and>
   newId (handleSwitch w) = newId w \<and>
   newTitle (handleSwitch w) = newTitle w \<and>
   creating (handleSwitch w) = creating w \<and>
   deleting (handleSwitch w) = deleting w \<and>
   (newId w = [] \<and> newTitle w = [] \<and> \<not> creating w \<and> deleting w = None \<longrightarrow>
      handleSwitch w = mountEffect (initial ((localStorage w)(''instructor_email'' := None))))"
  by (simp add: handleSwitch_def mountEffect_def initial_def)

theorem switch_resets_witness:
  "handleSwitch (dashboard\<lparr>cases := [skims], loading := True, emailInput := alice\<rparr>) =
     captureForm"
proof -
  let ?w = "dashboard\<lparr>cases := [skims], loading := True, emailInput := alice\<rparr>"
  have h: "newId ?w = [] \<and> newTitle ?w = [] \<and> \<not> creating ?w \<and> deleting ?w = None"
    by (simp add: dashboard_def)
  have m: "(localStorage ?w)(''instructor_email'' := None) = emptyStorage"
    by (simp add: dashboard_def emptyStorage_def)
  from switch_resets [of ?w] h m show ?thesis by (simp add: captureForm_def)
qed

end
